theory Spec2Isabelle
  imports Complex_Main
begin

section \<open>Python values, failures and the built-ins the analysis uses\<close>

text \<open>
  The analysis in \<^verbatim>\<open>sor_analiz.py\<close> works on the output of the decoder: a dictionary
  of blocks (\<^verbatim>\<open>Dict[str, Any]\<close>) whose values are \<^verbatim>\<open>None\<close>, numbers, strings, lists
  and dictionaries. A dictionary is an association list, so that the order of the keys of
  a row is part of the model; a lookup finds the first entry of a key. Python floats are
  modelled by the reals (no rounding, no infinities, no NaN) and Python integers by \<open>int\<close>.
\<close>

datatype pyval =
    PNone
  | PFloat real
  | PInt int
  | PStr string
  | PList "pyval list"
  | PDict "(string \<times> pyval) list"

type_synonym pydict = "(string \<times> pyval) list"

datatype py_error =
  AttributeError | TypeError | ValueError | KeyError | IndexError | ZeroDivisionError

text \<open>A statement that raises ends the function: the first failure is the result.\<close>

definition bindE :: "py_error + 'a \<Rightarrow> ('a \<Rightarrow> py_error + 'b) \<Rightarrow> py_error + 'b" where
  "bindE m f = (case m of Inl err \<Rightarrow> Inl err | Inr x \<Rightarrow> f x)"

text \<open>Truth value of an object, as \<^verbatim>\<open>if x\<close>, \<^verbatim>\<open>x or y\<close> and \<^verbatim>\<open>x and y\<close> test it.\<close>

fun py_truthy :: "pyval \<Rightarrow> bool" where
  "py_truthy PNone = False"
| "py_truthy (PFloat x) = (x \<noteq> 0)"
| "py_truthy (PInt i) = (i \<noteq> 0)"
| "py_truthy (PStr s) = (s \<noteq> [])"
| "py_truthy (PList xs) = (xs \<noteq> [])"
| "py_truthy (PDict d) = (d \<noteq> [])"

text \<open>\<^verbatim>\<open>a or b\<close>\<close>

definition py_or :: "pyval \<Rightarrow> pyval \<Rightarrow> pyval" where
  "py_or a b = (if py_truthy a then a else b)"

text \<open>\<^verbatim>\<open>d.get(k)\<close> on a dictionary: \<^verbatim>\<open>None\<close> for a missing key.\<close>

definition dict_get :: "pydict \<Rightarrow> string \<Rightarrow> pyval" where
  "dict_get d k = (case map_of d k of None \<Rightarrow> PNone | Some v \<Rightarrow> v)"

text \<open>\<^verbatim>\<open>v.get(k)\<close> on any object: only a dictionary has the method.\<close>

fun py_get :: "pyval \<Rightarrow> string \<Rightarrow> py_error + pyval" where
  "py_get (PDict d) k = Inr (dict_get d k)"
| "py_get v k = Inl AttributeError"

text \<open>\<^verbatim>\<open>d[k]\<close> on a dictionary: a missing key raises.\<close>

definition dict_index :: "pydict \<Rightarrow> string \<Rightarrow> py_error + pyval" where
  "dict_index d k = (case map_of d k of None \<Rightarrow> Inl KeyError | Some v \<Rightarrow> Inr v)"

text \<open>
  \<^verbatim>\<open>float(v)\<close>. What \<^verbatim>\<open>float\<close> reads out of a string is Python's own parser, which is
  not part of the repository: it is the parameter \<open>pf\<close> (\<open>None\<close> where \<^verbatim>\<open>float\<close> raises
  \<^verbatim>\<open>ValueError\<close>), and every result below holds for each such parser.
\<close>

type_synonym float_parser = "string \<Rightarrow> real option"

fun py_float :: "float_parser \<Rightarrow> pyval \<Rightarrow> py_error + real" where
  "py_float pf (PFloat x) = Inr x"
| "py_float pf (PInt i) = Inr (real_of_int i)"
| "py_float pf (PStr s) = (case pf s of None \<Rightarrow> Inl ValueError | Some x \<Rightarrow> Inr x)"
| "py_float pf v = Inl TypeError"

text \<open>
  The items a \<^verbatim>\<open>for\<close> loop or a generator draws from an object: the elements of a list,
  the characters of a string, the keys of a dictionary; a number or \<^verbatim>\<open>None\<close> is not
  iterable.
\<close>

fun py_iter :: "pyval \<Rightarrow> py_error + pyval list" where
  "py_iter (PList xs) = Inr xs"
| "py_iter (PStr s) = Inr (map (\<lambda>c. PStr [c]) s)"
| "py_iter (PDict d) = Inr (map (\<lambda>kv. PStr (fst kv)) d)"
| "py_iter v = Inl TypeError"

text \<open>\<^verbatim>\<open>x / y\<close> on floats.\<close>

definition py_truediv :: "real \<Rightarrow> real \<Rightarrow> py_error + real" where
  "py_truediv x y = (if y = 0 then Inl ZeroDivisionError else Inr (x / y))"

text \<open>\<^verbatim>\<open>max(xs)\<close> of a sequence of floats: an empty sequence raises.\<close>

definition py_max :: "real list \<Rightarrow> py_error + real" where
  "py_max xs = (case xs of [] \<Rightarrow> Inl ValueError | x # ys \<Rightarrow> Inr (fold max ys x))"

text \<open>\<^verbatim>\<open>max(xs, default=d)\<close>\<close>

definition py_max_default :: "real list \<Rightarrow> real \<Rightarrow> real" where
  "py_max_default xs d = (case xs of [] \<Rightarrow> d | x # ys \<Rightarrow> fold max ys x)"

text \<open>\<^verbatim>\<open>xs[-1]\<close>\<close>

definition py_last :: "'a list \<Rightarrow> py_error + 'a" where
  "py_last xs = (if xs = [] then Inl IndexError else Inr (last xs))"

section \<open>The blocks both tables read\<close>

text \<open>\<^verbatim>\<open>ke = blocks.get("KeyEvents") or {}\<close>\<close>

definition key_events :: "pydict \<Rightarrow> pyval" where
  "key_events blocks = py_or (dict_get blocks ''KeyEvents'') (PDict [])"

text \<open>\<^verbatim>\<open>events = ke.get("events") or []\<close>\<close>

definition events_of :: "pyval \<Rightarrow> py_error + pyval" where
  "events_of ke = bindE (py_get ke ''events'') (\<lambda>v. Inr (py_or v (PList [])))"

section \<open>\<^verbatim>\<open>auto_distance_factor\<close>\<close>

text \<open>
  The generator \<^verbatim>\<open>float(e.get("distance_of_travel") or 0.0) for e in events\<close>, drawn to
  its end by \<^verbatim>\<open>max\<close>.
\<close>

fun event_distances :: "float_parser \<Rightarrow> pyval list \<Rightarrow> py_error + real list" where
  "event_distances pf [] = Inr []"
| "event_distances pf (e # es) =
     bindE (py_get e ''distance_of_travel'') (\<lambda>v.
     bindE (py_float pf (py_or v (PFloat 0))) (\<lambda>x.
     bindE (event_distances pf es) (\<lambda>xs. Inr (x # xs))))"

definition auto_distance_factor :: "float_parser \<Rightarrow> pydict \<Rightarrow> py_error + real" where
  "auto_distance_factor pf blocks =
    (let ke = key_events blocks in
     bindE (events_of ke) (\<lambda>events.
     bindE (py_get ke ''fiber_length'') (\<lambda>fl.
     bindE (py_iter events) (\<lambda>es.
     bindE (event_distances pf es) (\<lambda>ds.
     let max_ev = py_max_default ds 0 in
     if py_truthy fl \<and> max_ev \<noteq> 0 then
       bindE (py_float pf fl) (\<lambda>fl_f.
       bindE (py_truediv max_ev fl_f) (\<lambda>r.
         if 17 / 10 < r \<and> r < 23 / 10 then Inr (1 / 2)
         else if 85 / 100 < r \<and> r < 115 / 100 then Inr 1
         else Inr (1 / 2)))
     else Inr (1 / 2))))))"

section \<open>\<^verbatim>\<open>extract_events_table\<close>\<close>

text \<open>
  One pass of the body of \<^verbatim>\<open>for e in events\<close>: the row appended, and the values of
  \<^verbatim>\<open>prev_dist_m\<close> and \<^verbatim>\<open>cum_loss_db\<close> after the pass.
\<close>

definition loop_body ::
  "float_parser \<Rightarrow> real \<Rightarrow> real \<Rightarrow> real \<Rightarrow> pyval \<Rightarrow> py_error + (pydict \<times> real \<times> real)" where
  "loop_body pf distance_factor prev_dist_m cum_loss_db e =
     bindE (py_get e ''distance_of_travel'') (\<lambda>v_dist.
     bindE (py_float pf (py_or v_dist (PFloat 0))) (\<lambda>f_dist.
     let dist_m = f_dist * distance_factor in
     bindE (py_get e ''slope'') (\<lambda>v_slope.
     bindE (py_float pf (py_or v_slope (PFloat 0))) (\<lambda>slope_db_per_km.
     bindE (py_get e ''splice_loss'') (\<lambda>v_loss.
     bindE (py_float pf (py_or v_loss (PFloat 0))) (\<lambda>event_loss_db.
     bindE (py_get e ''reflection_loss'') (\<lambda>v_refl.
     bindE (py_float pf (py_or v_refl (PFloat 0))) (\<lambda>reflectance_db.
     let rel_dist_m = (if dist_m - prev_dist_m < 0 then 0 else dist_m - prev_dist_m);
         section_loss_db = slope_db_per_km * (rel_dist_m / 1000);
         cum_loss_db' = cum_loss_db + (event_loss_db + section_loss_db) in
     bindE (py_get e ''event_type_details'') (\<lambda>v_etd.
     let etd = py_or v_etd (PDict []) in
     bindE (py_get e ''event_number'') (\<lambda>event_number.
     bindE (py_get e ''event_type'') (\<lambda>event_type.
     bindE (py_get etd ''event'') (\<lambda>etd_event.
     bindE (py_get etd ''note'') (\<lambda>etd_note.
     bindE (py_get e ''comment'') (\<lambda>v_comment.
     Inr ([(''event_number'', event_number),
           (''distance_m'', PFloat dist_m),
           (''rel_distance_m'', PFloat rel_dist_m),
           (''event_loss_db'', PFloat event_loss_db),
           (''slope_db_per_km'', PFloat slope_db_per_km),
           (''section_loss_db'', PFloat section_loss_db),
           (''cumulative_loss_db'', PFloat cum_loss_db'),
           (''reflectance_db'', PFloat reflectance_db),
           (''event_type'', event_type),
           (''event'', etd_event),
           (''note'', etd_note),
           (''comment'', py_or v_comment (PStr []))],
          dist_m, cum_loss_db')))))))))))))))"

text \<open>The loop, with its three variables \<^verbatim>\<open>rows\<close>, \<^verbatim>\<open>prev_dist_m\<close>, \<^verbatim>\<open>cum_loss_db\<close>.\<close>

fun events_loop ::
  "float_parser \<Rightarrow> real \<Rightarrow> pydict list \<Rightarrow> real \<Rightarrow> real \<Rightarrow> pyval list \<Rightarrow> py_error + pydict list" where
  "events_loop pf distance_factor rows prev_dist_m cum_loss_db [] = Inr rows"
| "events_loop pf distance_factor rows prev_dist_m cum_loss_db (e # es) =
     bindE (loop_body pf distance_factor prev_dist_m cum_loss_db e) (\<lambda>(row, dist_m, cum_loss_db').
       events_loop pf distance_factor (rows @ [row]) dist_m cum_loss_db' es)"

definition extract_events_table :: "float_parser \<Rightarrow> pydict \<Rightarrow> real \<Rightarrow> py_error + pydict list" where
  "extract_events_table pf blocks distance_factor =
    (let ke = key_events blocks in
     bindE (events_of ke) (\<lambda>events.
     bindE (py_iter events) (\<lambda>es.
       events_loop pf distance_factor [] 0 0 es)))"

section \<open>\<^verbatim>\<open>summarize\<close>\<close>

text \<open>The generator \<^verbatim>\<open>float(r["distance_m"]) for r in rows\<close>.\<close>

fun row_distances :: "float_parser \<Rightarrow> pydict list \<Rightarrow> py_error + real list" where
  "row_distances pf [] = Inr []"
| "row_distances pf (r # rs) =
     bindE (dict_index r ''distance_m'') (\<lambda>v.
     bindE (py_float pf v) (\<lambda>x.
     bindE (row_distances pf rs) (\<lambda>xs. Inr (x # xs))))"

definition summarize :: "float_parser \<Rightarrow> pydict \<Rightarrow> pydict list \<Rightarrow> py_error + pydict" where
  "summarize pf blocks rows =
    (let ke = key_events blocks in
     bindE (if rows \<noteq> [] then bindE (row_distances pf rows) py_max else Inr 0) (\<lambda>fiber_length_m.
     bindE (py_get ke ''total_loss'') (\<lambda>v_total.
     bindE (if v_total = PNone
            then (if rows \<noteq> []
                  then bindE (py_last rows) (\<lambda>r.
                       bindE (dict_index r ''cumulative_loss_db'') (py_float pf))
                  else Inr 0)
            else py_float pf v_total) (\<lambda>total_loss_db.
     let fiber_length_km = fiber_length_m / 1000 in
     bindE (if fiber_length_km > 0
            then bindE (py_truediv total_loss_db fiber_length_km) (\<lambda>q. Inr (PFloat q))
            else Inr PNone) (\<lambda>avg_att_db_per_km.
     bindE (py_get ke ''optical_return_loss'') (\<lambda>orl.
     Inr [(''fiber_length_m'', PFloat fiber_length_m),
          (''fiber_length_km'', PFloat fiber_length_km),
          (''total_loss_db'', PFloat total_loss_db),
          (''avg_att_db_per_km'', avg_att_db_per_km),
          (''optical_return_loss_db'', orl)]))))))"

section \<open>The distance mode of \<^verbatim>\<open>main\<close>\<close>

text \<open>
  The branch of \<^verbatim>\<open>main\<close> on \<^verbatim>\<open>args.distance\<close>, which the argument parser restricts to
  \<^verbatim>\<open>auto\<close>, \<^verbatim>\<open>oneway\<close> and \<^verbatim>\<open>twoway\<close>.
\<close>

definition main_factor :: "float_parser \<Rightarrow> string \<Rightarrow> pydict \<Rightarrow> py_error + real" where
  "main_factor pf distance blocks =
    (if distance = ''twoway'' then Inr 1
     else if distance = ''oneway'' then Inr (1 / 2)
     else auto_distance_factor pf blocks)"

section \<open>Notions the statements are written in\<close>

text \<open>The keys of the dictionary literal appended in the loop, in the order written there.\<close>

definition row_keys :: "string list" where
  "row_keys = [''event_number'', ''distance_m'', ''rel_distance_m'', ''event_loss_db'',
     ''slope_db_per_km'', ''section_loss_db'', ''cumulative_loss_db'', ''reflectance_db'',
     ''event_type'', ''event'', ''note'', ''comment'']"

text \<open>
  What one pass leaves in a row, seen from the carried values: \<open>prev\<close> and \<open>cum\<close>
  before the pass, \<open>d\<close> and \<open>c\<close> after it.
\<close>

definition row_ok :: "real \<Rightarrow> real \<Rightarrow> pydict \<Rightarrow> real \<Rightarrow> real \<Rightarrow> bool" where
  "row_ok prev cum r d c =
    (\<exists>ev sl.
       dict_index r ''distance_m'' = Inr (PFloat d) \<and>
       dict_index r ''rel_distance_m'' = Inr (PFloat (if d - prev < 0 then 0 else d - prev)) \<and>
       dict_index r ''event_loss_db'' = Inr (PFloat ev) \<and>
       dict_index r ''slope_db_per_km'' = Inr (PFloat sl) \<and>
       dict_index r ''section_loss_db'' =
         Inr (PFloat (sl * ((if d - prev < 0 then 0 else d - prev) / 1000))) \<and>
       dict_index r ''cumulative_loss_db'' = Inr (PFloat c) \<and>
       c = cum + (ev + sl * ((if d - prev < 0 then 0 else d - prev) / 1000)) \<and>
       map fst r = row_keys)"

text \<open>A table whose rows follow one another from the carried values \<open>prev\<close> and \<open>cum\<close>.\<close>

fun chain :: "real \<Rightarrow> real \<Rightarrow> pydict list \<Rightarrow> bool" where
  "chain prev cum [] = True"
| "chain prev cum (r # rs) = (\<exists>d c. row_ok prev cum r d c \<and> chain d c rs)"

text \<open>The number a value is, when it is a float or an integer.\<close>

fun as_number :: "pyval \<Rightarrow> real option" where
  "as_number (PFloat x) = Some x"
| "as_number (PInt i) = Some (real_of_int i)"
| "as_number v = None"

text \<open>A nullable numeric field: \<^verbatim>\<open>None\<close> (or no entry at all) or a number.\<close>

definition nullable_number :: "pyval \<Rightarrow> bool" where
  "nullable_number v = (v = PNone \<or> as_number v \<noteq> None)"

text \<open>
  What a row holds of the event it was built from, and under which keys: the floats of
  the four numeric fields (0.0 for a missing one), the fields passed through, and no
  entry named \<^verbatim>\<open>reflection_loss\<close>.
\<close>

definition row_of_event :: "float_parser \<Rightarrow> real \<Rightarrow> pyval \<Rightarrow> pydict \<Rightarrow> bool" where
  "row_of_event pf k e row =
    (\<exists>d x_dist x_slope x_loss x_refl etd.
       e = PDict d \<and>
       py_float pf (py_or (dict_get d ''distance_of_travel'') (PFloat 0)) = Inr x_dist \<and>
       dict_index row ''distance_m'' = Inr (PFloat (x_dist * k)) \<and>
       py_float pf (py_or (dict_get d ''slope'') (PFloat 0)) = Inr x_slope \<and>
       dict_index row ''slope_db_per_km'' = Inr (PFloat x_slope) \<and>
       py_float pf (py_or (dict_get d ''splice_loss'') (PFloat 0)) = Inr x_loss \<and>
       dict_index row ''event_loss_db'' = Inr (PFloat x_loss) \<and>
       py_float pf (py_or (dict_get d ''reflection_loss'') (PFloat 0)) = Inr x_refl \<and>
       dict_index row ''reflectance_db'' = Inr (PFloat x_refl) \<and>
       dict_index row ''event_number'' = Inr (dict_get d ''event_number'') \<and>
       dict_index row ''event_type'' = Inr (dict_get d ''event_type'') \<and>
       py_or (dict_get d ''event_type_details'') (PDict []) = PDict etd \<and>
       dict_index row ''event'' = Inr (dict_get etd ''event'') \<and>
       dict_index row ''note'' = Inr (dict_get etd ''note'') \<and>
       dict_index row ''comment'' = Inr (py_or (dict_get d ''comment'') (PStr [])) \<and>
       dict_index row ''reflection_loss'' = Inl KeyError \<and>
       map fst row = row_keys)"

text \<open>
  The documented shape of the input: the blocks hold no \<^verbatim>\<open>KeyEvents\<close> entry or a
  dictionary; its \<^verbatim>\<open>fiber_length\<close> and \<^verbatim>\<open>total_loss\<close> are nullable numbers; its \<^verbatim>\<open>events\<close>
  are missing or a list of dictionaries whose four numeric fields are nullable numbers
  and whose \<^verbatim>\<open>event_type_details\<close> is an optional dictionary.
\<close>

fun optional_mapping :: "pyval \<Rightarrow> bool" where
  "optional_mapping PNone = True"
| "optional_mapping (PDict d) = True"
| "optional_mapping v = False"

fun event_shape :: "pyval \<Rightarrow> bool" where
  "event_shape (PDict d) =
     (nullable_number (dict_get d ''distance_of_travel'') \<and>
      nullable_number (dict_get d ''slope'') \<and>
      nullable_number (dict_get d ''splice_loss'') \<and>
      nullable_number (dict_get d ''reflection_loss'') \<and>
      optional_mapping (dict_get d ''event_type_details''))"
| "event_shape v = False"

fun events_shape :: "pyval \<Rightarrow> bool" where
  "events_shape PNone = True"
| "events_shape (PList es) = list_all event_shape es"
| "events_shape v = False"

fun key_events_shape :: "pyval \<Rightarrow> bool" where
  "key_events_shape PNone = True"
| "key_events_shape (PDict ke) =
     (nullable_number (dict_get ke ''fiber_length'') \<and>
      nullable_number (dict_get ke ''total_loss'') \<and>
      events_shape (dict_get ke ''events''))"
| "key_events_shape v = False"

definition blocks_shape :: "pydict \<Rightarrow> bool" where
  "blocks_shape blocks = key_events_shape (dict_get blocks ''KeyEvents'')"

text \<open>
  The shape of a row that \<^verbatim>\<open>summarize\<close> reads: numbers under \<^verbatim>\<open>distance_m\<close> and
  \<^verbatim>\<open>cumulative_loss_db\<close>.
\<close>

definition number_at :: "pydict \<Rightarrow> string \<Rightarrow> bool" where
  "number_at r k = (case dict_index r k of Inl err \<Rightarrow> False | Inr v \<Rightarrow> as_number v \<noteq> None)"

definition row_shape :: "pydict \<Rightarrow> bool" where
  "row_shape r = (number_at r ''distance_m'' \<and> number_at r ''cumulative_loss_db'')"

section \<open>Worked inputs\<close>

text \<open>
  Two events at raw distances 1000 and 2000 on a fibre of length 1000 (ratio 2.0), and
  the table the loop builds from them with the factor 0.5.
\<close>

definition scenario_events :: "pyval list" where
  "scenario_events =
     [PDict [(''distance_of_travel'', PFloat 1000), (''slope'', PFloat (- (2 / 10))),
             (''splice_loss'', PFloat (5 / 100)), (''reflection_loss'', PFloat (- 40))],
      PDict [(''distance_of_travel'', PFloat 2000), (''slope'', PFloat (- (2 / 10))),
             (''splice_loss'', PFloat (1 / 10)), (''reflection_loss'', PFloat (- 35))]]"

definition scenario_blocks :: pydict where
  "scenario_blocks =
     [(''KeyEvents'', PDict
        [(''fiber_length'', PFloat 1000), (''events'', PList scenario_events)])]"

text \<open>The same events in blocks that also report a total loss of 12.5.\<close>

definition reported_blocks :: pydict where
  "reported_blocks =
     [(''KeyEvents'', PDict
        [(''fiber_length'', PFloat 1000), (''total_loss'', PFloat (25 / 2)),
         (''events'', PList scenario_events)])]"

text \<open>
  Three events whose second lies before the first (raw distances 1000, 400, 900) in
  blocks without a fibre length, and the table the loop builds from them with the
  factor 0.5.
\<close>

definition regress_events :: "pyval list" where
  "regress_events =
     [PDict [(''event_number'', PInt 1), (''distance_of_travel'', PFloat 1000), (''slope'', PFloat 2)],
      PDict [(''event_number'', PInt 2), (''distance_of_travel'', PFloat 400), (''slope'', PFloat 2)],
      PDict [(''event_number'', PInt 3), (''distance_of_travel'', PFloat 900), (''slope'', PFloat 2)]]"

definition regress_blocks :: pydict where
  "regress_blocks = [(''KeyEvents'', PDict [(''events'', PList regress_events)])]"

text \<open>
  A fibre of length 2000 whose farthest event lies at 2100 (ratio 1.05); the last event
  has no distance.
\<close>

definition oneway_events :: "pyval list" where
  "oneway_events =
     [PDict [(''distance_of_travel'', PFloat 1000)],
      PDict [(''distance_of_travel'', PFloat 2100)],
      PDict [(''slope'', PFloat 1)]]"

definition oneway_blocks :: pydict where
  "oneway_blocks =
     [(''KeyEvents'', PDict
        [(''fiber_length'', PInt 2000), (''events'', PList oneway_events)])]"

text \<open>
  One event at the raw distance -2000 on a fibre of length 1000 (ratio -2.0), and the
  table the loop builds from it with the factor 0.5.
\<close>

definition negative_events :: "pyval list" where
  "negative_events =
     [PDict [(''distance_of_travel'', PFloat (- 2000)), (''splice_loss'', PFloat 1)]]"

definition negative_blocks :: pydict where
  "negative_blocks =
     [(''KeyEvents'', PDict
        [(''fiber_length'', PFloat 1000), (''events'', PList negative_events)])]"

definition negative_table :: "pydict list" where
  "negative_table =
     [[(''event_number'', PNone), (''distance_m'', PFloat (- 1000)),
       (''rel_distance_m'', PFloat 0), (''event_loss_db'', PFloat 1),
       (''slope_db_per_km'', PFloat 0), (''section_loss_db'', PFloat 0),
       (''cumulative_loss_db'', PFloat 1), (''reflectance_db'', PFloat 0),
       (''event_type'', PNone), (''event'', PNone), (''note'', PNone), (''comment'', PStr [])]]"

definition scenario_table :: "pydict list" where
  "scenario_table =
     [[(''event_number'', PNone), (''distance_m'', PFloat 500),
       (''rel_distance_m'', PFloat 500), (''event_loss_db'', PFloat (1 / 20)),
       (''slope_db_per_km'', PFloat (- (1 / 5))), (''section_loss_db'', PFloat (- (1 / 10))),
       (''cumulative_loss_db'', PFloat (- (1 / 20))), (''reflectance_db'', PFloat (- 40)),
       (''event_type'', PNone), (''event'', PNone), (''note'', PNone), (''comment'', PStr [])],
      [(''event_number'', PNone), (''distance_m'', PFloat 1000),
       (''rel_distance_m'', PFloat 500), (''event_loss_db'', PFloat (1 / 10)),
       (''slope_db_per_km'', PFloat (- (1 / 5))), (''section_loss_db'', PFloat (- (1 / 10))),
       (''cumulative_loss_db'', PFloat (- (1 / 20))), (''reflectance_db'', PFloat (- 35)),
       (''event_type'', PNone), (''event'', PNone), (''note'', PNone), (''comment'', PStr [])]]"

definition regress_table :: "pydict list" where
  "regress_table =
     [[(''event_number'', PInt 1), (''distance_m'', PFloat 500),
       (''rel_distance_m'', PFloat 500), (''event_loss_db'', PFloat 0),
       (''slope_db_per_km'', PFloat 2), (''section_loss_db'', PFloat 1),
       (''cumulative_loss_db'', PFloat 1), (''reflectance_db'', PFloat 0),
       (''event_type'', PNone), (''event'', PNone), (''note'', PNone), (''comment'', PStr [])],
      [(''event_number'', PInt 2), (''distance_m'', PFloat 200),
       (''rel_distance_m'', PFloat 0), (''event_loss_db'', PFloat 0),
       (''slope_db_per_km'', PFloat 2), (''section_loss_db'', PFloat 0),
       (''cumulative_loss_db'', PFloat 1), (''reflectance_db'', PFloat 0),
       (''event_type'', PNone), (''event'', PNone), (''note'', PNone), (''comment'', PStr [])],
      [(''event_number'', PInt 3), (''distance_m'', PFloat 450),
       (''rel_distance_m'', PFloat 250), (''event_loss_db'', PFloat 0),
       (''slope_db_per_km'', PFloat 2), (''section_loss_db'', PFloat (1 / 2)),
       (''cumulative_loss_db'', PFloat (3 / 2)), (''reflectance_db'', PFloat 0),
       (''event_type'', PNone), (''event'', PNone), (''note'', PNone), (''comment'', PStr [])]]"

section \<open>Sequencing and the loop\<close>

lemma bindE_Inr [simp]: "bindE (Inr x) f = f x"
  by (simp add: bindE_def)

lemma bindE_Inl [simp]: "bindE (Inl err) f = Inl err"
  by (simp add: bindE_def)

lemma bindE_eq_Inr: "bindE m f = Inr y \<longleftrightarrow> (\<exists>x. m = Inr x \<and> f x = Inr y)"
  by (cases m) simp_all

lemma loop_body_row_ok:
  assumes "loop_body pf k prev cum e = Inr (row, d, c)"
  shows "row_ok prev cum row d c"
  using assms
  unfolding loop_body_def Let_def bindE_eq_Inr
  by (auto simp: row_ok_def dict_index_def row_keys_def)

text \<open>The rows already collected are a prefix of the result, untouched by later passes.\<close>

lemma events_loop_append:
  "events_loop pf k rows p c es = bindE (events_loop pf k [] p c es) (\<lambda>new. Inr (rows @ new))"
proof (induction es arbitrary: rows p c)
  case Nil
  show ?case by simp
next
  case (Cons e es)
  show ?case
  proof (cases "loop_body pf k p c e")
    case (Inl err)
    then show ?thesis by simp
  next
    case (Inr t)
    obtain row d c' where t: "t = (row, d, c')" by (cases t)
    have "events_loop pf k (rows @ [row]) d c' es
            = bindE (events_loop pf k [] d c' es) (\<lambda>new. Inr ((rows @ [row]) @ new))"
      by (rule Cons.IH)
    moreover have "events_loop pf k [row] d c' es
            = bindE (events_loop pf k [] d c' es) (\<lambda>new. Inr ([row] @ new))"
      using Cons.IH [of "[row]" d c'] by simp
    ultimately show ?thesis
      using Inr t by (cases "events_loop pf k [] d c' es") simp_all
  qed
qed

lemma events_loop_Cons:
  "events_loop pf k [] p c (e # es) = Inr out \<longleftrightarrow>
     (\<exists>row d c' rest. loop_body pf k p c e = Inr (row, d, c') \<and>
        events_loop pf k [] d c' es = Inr rest \<and> out = row # rest)"
proof (cases "loop_body pf k p c e")
  case (Inl err)
  then show ?thesis by simp
next
  case (Inr t)
  obtain row d c' where t: "t = (row, d, c')" by (cases t)
  show ?thesis
    using Inr t events_loop_append [of pf k "[row]" d c' es]
    by (auto simp: bindE_eq_Inr)
qed

lemma events_loop_chain:
  "events_loop pf k [] p c es = Inr out \<Longrightarrow> chain p c out \<and> length out = length es"
proof (induction es arbitrary: p c out)
  case Nil
  then show ?case by simp
next
  case (Cons e es)
  then obtain row d c' rest where
    b: "loop_body pf k p c e = Inr (row, d, c')" and
    r: "events_loop pf k [] d c' es = Inr rest" and o: "out = row # rest"
    unfolding events_loop_Cons by blast
  from Cons.IH [OF r] loop_body_row_ok [OF b] o show ?case by auto
qed

text \<open>Row \<open>i\<close> of a chained table starts from what row \<open>i - 1\<close> holds.\<close>

lemma chain_nth:
  "chain p c rs \<Longrightarrow> i < length rs \<Longrightarrow>
     \<exists>p_i c_i d c'.
       row_ok p_i c_i (rs ! i) d c' \<and>
       (if i = 0 then Inr (PFloat p) else dict_index (rs ! (i - 1)) ''distance_m'') = Inr (PFloat p_i) \<and>
       (if i = 0 then Inr (PFloat c) else dict_index (rs ! (i - 1)) ''cumulative_loss_db'') = Inr (PFloat c_i)"
proof (induction rs arbitrary: p c i)
  case Nil
  then show ?case by simp
next
  case (Cons r rs)
  from Cons.prems(1) obtain d c' where ok: "row_ok p c r d c'" and ch: "chain d c' rs"
    by auto
  show ?case
  proof (cases i)
    case 0
    with ok show ?thesis by auto
  next
    case (Suc j)
    with Cons.prems(2) have j: "j < length rs" by simp
    from Cons.IH [OF ch j] obtain p_j c_j d_j c_j' where
      a: "row_ok p_j c_j (rs ! j) d_j c_j'" and
      b: "(if j = 0 then Inr (PFloat d) else dict_index (rs ! (j - 1)) ''distance_m'') = Inr (PFloat p_j)" and
      e: "(if j = 0 then Inr (PFloat c') else dict_index (rs ! (j - 1)) ''cumulative_loss_db'') = Inr (PFloat c_j)"
      by blast
    have r_d: "dict_index r ''distance_m'' = Inr (PFloat d)"
      and r_c: "dict_index r ''cumulative_loss_db'' = Inr (PFloat c')"
      using ok by (auto simp: row_ok_def)
    have "dict_index ((r # rs) ! (i - 1)) ''distance_m'' = Inr (PFloat p_j)"
      using b r_d Suc by (cases j) auto
    moreover have "dict_index ((r # rs) ! (i - 1)) ''cumulative_loss_db'' = Inr (PFloat c_j)"
      using e r_c Suc by (cases j) auto
    ultimately show ?thesis using a Suc by auto
  qed
qed

lemma extract_events_table_chain:
  assumes "extract_events_table pf blocks k = Inr table"
  shows "chain 0 0 table"
  using assms
  unfolding extract_events_table_def Let_def bindE_eq_Inr
  by (auto dest: events_loop_chain)

section \<open>The distance mode and the values of the calibrator\<close>

text \<open>
  C7. The branch of \<^verbatim>\<open>main\<close> turns the mode \<^verbatim>\<open>twoway\<close> into the factor 1.0 and the mode
  \<^verbatim>\<open>oneway\<close> into the factor 0.5, whatever the blocks hold, so the ratio heuristic plays
  no part there; the mode \<^verbatim>\<open>auto\<close> returns what \<^verbatim>\<open>auto_distance_factor\<close> returns on the
  blocks.
\<close>

theorem main_factor_modes:
  "main_factor pf ''twoway'' blocks = Inr 1 \<and>
   main_factor pf ''oneway'' blocks = Inr (1 / 2) \<and>
   main_factor pf ''auto'' blocks = auto_distance_factor pf blocks"
  by (simp add: main_factor_def)

text \<open>
  C10. Whenever \<^verbatim>\<open>auto_distance_factor\<close> returns, the factor is exactly 0.5 or exactly 1.0,
  so a calibrated distance is the raw distance or half of it.
\<close>

theorem auto_distance_factor_values:
  assumes "auto_distance_factor pf blocks = Inr f"
  shows "f = 1 / 2 \<or> f = 1"
  using assms
  by (auto simp: auto_distance_factor_def Let_def bindE_eq_Inr split: if_splits)

theorem auto_distance_factor_values_witness:
  "auto_distance_factor Map.empty
     [(''KeyEvents'', PDict [(''fiber_length'', PFloat 1000),
        (''events'', PList [PDict [(''distance_of_travel'', PFloat 1000)]])])] = Inr 1 \<and>
   ((1::real) = 1 / 2 \<or> (1::real) = 1)"
proof -
  have h: "auto_distance_factor Map.empty
     [(''KeyEvents'', PDict [(''fiber_length'', PFloat 1000),
        (''events'', PList [PDict [(''distance_of_travel'', PFloat 1000)]])])] = Inr 1"
    by (simp add: auto_distance_factor_def key_events_def events_of_def dict_get_def
          py_or_def py_max_default_def py_truediv_def)
  show ?thesis using h auto_distance_factor_values [OF h] by simp
qed

section \<open>The event table\<close>

lemma scenario_table_eq:
  "extract_events_table Map.empty scenario_blocks (1 / 2) = Inr scenario_table"
  by code_simp

lemma regress_table_eq:
  "extract_events_table Map.empty regress_blocks (1 / 2) = Inr regress_table"
  by code_simp







section \<open>The ratio bands of the calibrator\<close>

lemma py_float_truthy:
  assumes "nullable_number fl" and "py_truthy fl"
  shows "\<exists>x. as_number fl = Some x \<and> py_float pf fl = Inr x \<and> x \<noteq> 0"
  using assms by (cases fl) (auto simp: nullable_number_def)

lemma as_number_falsy:
  assumes "nullable_number fl" and "\<not> py_truthy fl"
  shows "as_number fl = None \<or> as_number fl = Some 0"
  using assms by (cases fl) (auto simp: nullable_number_def)



section \<open>The summary\<close>

lemma summarize_Inr:
  assumes "summarize pf blocks rows = Inr summary"
  shows "\<exists>m v_total total orl.
           (if rows \<noteq> [] then bindE (row_distances pf rows) py_max else Inr 0) = Inr m \<and>
           py_get (key_events blocks) ''total_loss'' = Inr v_total \<and>
           (if v_total = PNone
            then (if rows \<noteq> []
                  then bindE (py_last rows) (\<lambda>r.
                       bindE (dict_index r ''cumulative_loss_db'') (py_float pf))
                  else Inr 0)
            else py_float pf v_total) = Inr total \<and>
           py_get (key_events blocks) ''optical_return_loss'' = Inr orl \<and>
           summary =
             [(''fiber_length_m'', PFloat m),
              (''fiber_length_km'', PFloat (m / 1000)),
              (''total_loss_db'', PFloat total),
              (''avg_att_db_per_km'', if 0 < m / 1000 then PFloat (total / (m / 1000)) else PNone),
              (''optical_return_loss_db'', orl)]"
  using assms
  unfolding summarize_def Let_def bindE_eq_Inr
  by (auto simp: bindE_eq_Inr py_truediv_def split: if_splits)

lemma negative_table_eq:
  "extract_events_table Map.empty negative_blocks (1 / 2) = Inr negative_table"
  by code_simp

text \<open>
  C4. In every summary \<^verbatim>\<open>summarize\<close> returns, \<^verbatim>\<open>total_loss_db\<close> is the float of
  \<^verbatim>\<open>KeyEvents.total_loss\<close> whenever that field is not \<^verbatim>\<open>None\<close>, whatever the rows hold;
  otherwise it is the \<^verbatim>\<open>cumulative_loss_db\<close> of the last row, or 0.0 without rows.
\<close>

theorem total_loss_source:
  assumes "summarize pf blocks rows = Inr summary"
    and "py_get (key_events blocks) ''total_loss'' = Inr total_loss"
  shows "(total_loss \<noteq> PNone \<longrightarrow>
            (\<exists>x. py_float pf total_loss = Inr x \<and>
                 dict_index summary ''total_loss_db'' = Inr (PFloat x))) \<and>
         (total_loss = PNone \<and> rows \<noteq> [] \<longrightarrow>
            (\<exists>c. bindE (dict_index (last rows) ''cumulative_loss_db'') (py_float pf) = Inr c \<and>
                 dict_index summary ''total_loss_db'' = Inr (PFloat c))) \<and>
         (total_loss = PNone \<and> rows = [] \<longrightarrow>
            dict_index summary ''total_loss_db'' = Inr (PFloat 0))"
  using summarize_Inr [OF assms(1)] assms(2)
  by (auto simp: dict_index_def py_last_def split: if_splits)

theorem total_loss_source_witness:
  "summarize Map.empty reported_blocks scenario_table =
     Inr [(''fiber_length_m'', PFloat 1000), (''fiber_length_km'', PFloat 1),
          (''total_loss_db'', PFloat (25 / 2)), (''avg_att_db_per_km'', PFloat (25 / 2)),
          (''optical_return_loss_db'', PNone)] \<and>
   py_get (key_events reported_blocks) ''total_loss'' = Inr (PFloat (25 / 2)) \<and>
   dict_index (last scenario_table) ''cumulative_loss_db'' = Inr (PFloat (- (1 / 20))) \<and>
   summarize Map.empty scenario_blocks scenario_table =
     Inr [(''fiber_length_m'', PFloat 1000), (''fiber_length_km'', PFloat 1),
          (''total_loss_db'', PFloat (- (1 / 20))), (''avg_att_db_per_km'', PFloat (- (1 / 20))),
          (''optical_return_loss_db'', PNone)] \<and>
   py_get (key_events scenario_blocks) ''total_loss'' = Inr PNone \<and>
   summarize Map.empty scenario_blocks [] =
     Inr [(''fiber_length_m'', PFloat 0), (''fiber_length_km'', PFloat 0),
          (''total_loss_db'', PFloat 0), (''avg_att_db_per_km'', PNone),
          (''optical_return_loss_db'', PNone)]"
proof -
  have s1: "summarize Map.empty reported_blocks scenario_table =
     Inr [(''fiber_length_m'', PFloat 1000), (''fiber_length_km'', PFloat 1),
          (''total_loss_db'', PFloat (25 / 2)), (''avg_att_db_per_km'', PFloat (25 / 2)),
          (''optical_return_loss_db'', PNone)]"
    by code_simp
  have g1: "py_get (key_events reported_blocks) ''total_loss'' = Inr (PFloat (25 / 2))"
    by code_simp
  have l: "dict_index (last scenario_table) ''cumulative_loss_db'' = Inr (PFloat (- (1 / 20)))"
    by code_simp
  have s2: "summarize Map.empty scenario_blocks scenario_table =
     Inr [(''fiber_length_m'', PFloat 1000), (''fiber_length_km'', PFloat 1),
          (''total_loss_db'', PFloat (- (1 / 20))), (''avg_att_db_per_km'', PFloat (- (1 / 20))),
          (''optical_return_loss_db'', PNone)]"
    by code_simp
  have g2: "py_get (key_events scenario_blocks) ''total_loss'' = Inr PNone"
    by code_simp
  have s3: "summarize Map.empty scenario_blocks [] =
     Inr [(''fiber_length_m'', PFloat 0), (''fiber_length_km'', PFloat 0),
          (''total_loss_db'', PFloat 0), (''avg_att_db_per_km'', PNone),
          (''optical_return_loss_db'', PNone)]"
    by code_simp
  from total_loss_source [OF s1 g1] total_loss_source [OF s2 g2] total_loss_source [OF s3 g2]
  show ?thesis
    using s1 g1 l s2 g2 s3 by simp
qed

text \<open>
  C5, as the code has it. In every summary \<^verbatim>\<open>summarize\<close> returns,
  \<^verbatim>\<open>avg_att_db_per_km\<close> is \<^verbatim>\<open>total_loss_db / fiber_length_km\<close> when \<^verbatim>\<open>fiber_length_km\<close> is
  positive, and \<^verbatim>\<open>None\<close> when it is zero or negative.
\<close>

theorem avg_att_guard:
  assumes "summarize pf blocks rows = Inr summary"
  shows "\<exists>km total.
           dict_index summary ''fiber_length_km'' = Inr (PFloat km) \<and>
           dict_index summary ''total_loss_db'' = Inr (PFloat total) \<and>
           dict_index summary ''avg_att_db_per_km'' =
             Inr (if 0 < km then PFloat (total / km) else PNone)"
proof -
  from summarize_Inr [OF assms] obtain m total orl where
    s: "summary =
          [(''fiber_length_m'', PFloat m),
           (''fiber_length_km'', PFloat (m / 1000)),
           (''total_loss_db'', PFloat total),
           (''avg_att_db_per_km'', if 0 < m / 1000 then PFloat (total / (m / 1000)) else PNone),
           (''optical_return_loss_db'', orl)]"
    by blast
  show ?thesis
    unfolding s
    by (intro exI [of _ "m / 1000"] exI [of _ total]) (simp add: dict_index_def)
qed

theorem avg_att_guard_witness:
  "summarize Map.empty scenario_blocks scenario_table =
     Inr [(''fiber_length_m'', PFloat 1000), (''fiber_length_km'', PFloat 1),
          (''total_loss_db'', PFloat (- (1 / 20))), (''avg_att_db_per_km'', PFloat (- (1 / 20))),
          (''optical_return_loss_db'', PNone)] \<and>
   (\<exists>km total.
      dict_index [(''fiber_length_m'', PFloat 1000), (''fiber_length_km'', PFloat 1),
          (''total_loss_db'', PFloat (- (1 / 20))), (''avg_att_db_per_km'', PFloat (- (1 / 20))),
          (''optical_return_loss_db'', PNone)] ''fiber_length_km'' = Inr (PFloat km) \<and>
      dict_index [(''fiber_length_m'', PFloat 1000), (''fiber_length_km'', PFloat 1),
          (''total_loss_db'', PFloat (- (1 / 20))), (''avg_att_db_per_km'', PFloat (- (1 / 20))),
          (''optical_return_loss_db'', PNone)] ''total_loss_db'' = Inr (PFloat total) \<and>
      dict_index [(''fiber_length_m'', PFloat 1000), (''fiber_length_km'', PFloat 1),
          (''total_loss_db'', PFloat (- (1 / 20))), (''avg_att_db_per_km'', PFloat (- (1 / 20))),
          (''optical_return_loss_db'', PNone)] ''avg_att_db_per_km'' =
        Inr (if 0 < km then PFloat (total / km) else PNone))"
proof -
  have s: "summarize Map.empty scenario_blocks scenario_table =
     Inr [(''fiber_length_m'', PFloat 1000), (''fiber_length_km'', PFloat 1),
          (''total_loss_db'', PFloat (- (1 / 20))), (''avg_att_db_per_km'', PFloat (- (1 / 20))),
          (''optical_return_loss_db'', PNone)]"
    by code_simp
  from avg_att_guard [OF s] s show ?thesis by blast
qed

text \<open>
  C5 as stated fails on a negative length: the one event at the raw distance -2000 gives
  \<^verbatim>\<open>fiber_length_km\<close> = -1, which is not 0, and \<^verbatim>\<open>avg_att_db_per_km\<close> is \<^verbatim>\<open>None\<close>, not the
  quotient 1 / (-1).
\<close>

theorem avg_att_negative_length_counterexample:
  "extract_events_table Map.empty negative_blocks (1 / 2) = Inr negative_table \<and>
   summarize Map.empty negative_blocks negative_table =
     Inr [(''fiber_length_m'', PFloat (- 1000)),
          (''fiber_length_km'', PFloat (- 1)),
          (''total_loss_db'', PFloat 1),
          (''avg_att_db_per_km'', PNone),
          (''optical_return_loss_db'', PNone)] \<and>
   (- 1 :: real) \<noteq> 0 \<and> PNone \<noteq> PFloat (1 / (- 1))"
proof -
  have "summarize Map.empty negative_blocks negative_table =
     Inr [(''fiber_length_m'', PFloat (- 1000)),
          (''fiber_length_km'', PFloat (- 1)),
          (''total_loss_db'', PFloat 1),
          (''avg_att_db_per_km'', PNone),
          (''optical_return_loss_db'', PNone)]"
    by code_simp
  with negative_table_eq show ?thesis by simp
qed

section \<open>Rows and the events they come from\<close>

lemma py_get_Inr: "py_get v k = Inr w \<longleftrightarrow> (\<exists>d. v = PDict d \<and> w = dict_get d k)"
  by (cases v) auto

lemma loop_body_PDict:
  "loop_body pf k prev cum (PDict dct) =
     bindE (py_float pf (py_or (dict_get dct ''distance_of_travel'') (PFloat 0))) (\<lambda>x_dist.
     bindE (py_float pf (py_or (dict_get dct ''slope'') (PFloat 0))) (\<lambda>x_slope.
     bindE (py_float pf (py_or (dict_get dct ''splice_loss'') (PFloat 0))) (\<lambda>x_loss.
     bindE (py_float pf (py_or (dict_get dct ''reflection_loss'') (PFloat 0))) (\<lambda>x_refl.
     bindE (py_get (py_or (dict_get dct ''event_type_details'') (PDict [])) ''event'') (\<lambda>etd_event.
     bindE (py_get (py_or (dict_get dct ''event_type_details'') (PDict [])) ''note'') (\<lambda>etd_note.
     Inr ([(''event_number'', dict_get dct ''event_number''),
           (''distance_m'', PFloat (x_dist * k)),
           (''rel_distance_m'', PFloat (if x_dist * k - prev < 0 then 0 else x_dist * k - prev)),
           (''event_loss_db'', PFloat x_loss),
           (''slope_db_per_km'', PFloat x_slope),
           (''section_loss_db'',
              PFloat (x_slope * ((if x_dist * k - prev < 0 then 0 else x_dist * k - prev) / 1000))),
           (''cumulative_loss_db'',
              PFloat (cum + (x_loss +
                 x_slope * ((if x_dist * k - prev < 0 then 0 else x_dist * k - prev) / 1000)))),
           (''reflectance_db'', PFloat x_refl),
           (''event_type'', dict_get dct ''event_type''),
           (''event'', etd_event),
           (''note'', etd_note),
           (''comment'', py_or (dict_get dct ''comment'') (PStr []))],
          x_dist * k,
          cum + (x_loss +
            x_slope * ((if x_dist * k - prev < 0 then 0 else x_dist * k - prev) / 1000)))))))))"
  by (simp add: loop_body_def Let_def)


lemma loop_body_Inr_dict:
  assumes "loop_body pf k prev cum e = Inr t"
  shows "\<exists>dct. e = PDict dct"
  using assms by (cases e) (simp_all add: loop_body_def)

lemma loop_body_row_of_event:
  assumes "loop_body pf k prev cum e = Inr (row, d, c)"
  shows "row_of_event pf k e row"
proof -
  from loop_body_Inr_dict [OF assms] obtain dct where e: "e = PDict dct"
    by blast
  from assms [unfolded e loop_body_PDict bindE_eq_Inr py_get_Inr]
  obtain x_dist x_slope x_loss x_refl etd where
    f1: "py_float pf (py_or (dict_get dct ''distance_of_travel'') (PFloat 0)) = Inr x_dist" and
    f2: "py_float pf (py_or (dict_get dct ''slope'') (PFloat 0)) = Inr x_slope" and
    f3: "py_float pf (py_or (dict_get dct ''splice_loss'') (PFloat 0)) = Inr x_loss" and
    f4: "py_float pf (py_or (dict_get dct ''reflection_loss'') (PFloat 0)) = Inr x_refl" and
    f5: "py_or (dict_get dct ''event_type_details'') (PDict []) = PDict etd" and
    row: "row = [(''event_number'', dict_get dct ''event_number''),
           (''distance_m'', PFloat (x_dist * k)),
           (''rel_distance_m'', PFloat (if x_dist * k - prev < 0 then 0 else x_dist * k - prev)),
           (''event_loss_db'', PFloat x_loss),
           (''slope_db_per_km'', PFloat x_slope),
           (''section_loss_db'',
              PFloat (x_slope * ((if x_dist * k - prev < 0 then 0 else x_dist * k - prev) / 1000))),
           (''cumulative_loss_db'',
              PFloat (cum + (x_loss +
                 x_slope * ((if x_dist * k - prev < 0 then 0 else x_dist * k - prev) / 1000)))),
           (''reflectance_db'', PFloat x_refl),
           (''event_type'', dict_get dct ''event_type''),
           (''event'', dict_get etd ''event''),
           (''note'', dict_get etd ''note''),
           (''comment'', py_or (dict_get dct ''comment'') (PStr []))]"
    by auto
  have "dict_index row ''distance_m'' = Inr (PFloat (x_dist * k))"
    "dict_index row ''slope_db_per_km'' = Inr (PFloat x_slope)"
    "dict_index row ''event_loss_db'' = Inr (PFloat x_loss)"
    "dict_index row ''reflectance_db'' = Inr (PFloat x_refl)"
    "dict_index row ''event_number'' = Inr (dict_get dct ''event_number'')"
    "dict_index row ''event_type'' = Inr (dict_get dct ''event_type'')"
    "dict_index row ''event'' = Inr (dict_get etd ''event'')"
    "dict_index row ''note'' = Inr (dict_get etd ''note'')"
    "dict_index row ''comment'' = Inr (py_or (dict_get dct ''comment'') (PStr []))"
    "dict_index row ''reflection_loss'' = Inl KeyError"
    "map fst row = row_keys"
    unfolding row by (simp_all add: dict_index_def row_keys_def)
  with e f1 f2 f3 f4 f5 show ?thesis
    unfolding row_of_event_def by blast
qed

lemma events_loop_rows:
  "events_loop pf k [] p c es = Inr out \<Longrightarrow> list_all2 (row_of_event pf k) es out"
proof (induction es arbitrary: p c out)
  case Nil
  then show ?case by simp
next
  case (Cons e es)
  then obtain row d c' rest where
    b: "loop_body pf k p c e = Inr (row, d, c')" and
    r: "events_loop pf k [] d c' es = Inr rest" and o: "out = row # rest"
    unfolding events_loop_Cons by blast
  from Cons.IH [OF r] loop_body_row_of_event [OF b] o show ?case by simp
qed

lemma extract_events_table_rows:
  assumes "extract_events_table pf blocks k = Inr table"
  shows "\<exists>events es. events_of (key_events blocks) = Inr events \<and> py_iter events = Inr es \<and>
           list_all2 (row_of_event pf k) es table"
  using assms
  unfolding extract_events_table_def Let_def bindE_eq_Inr
  by (auto dest: events_loop_rows)

text \<open>
  C9, as the code has it. \<^verbatim>\<open>extract_events_table\<close> returns one row per event, in the
  order of the events: row \<open>i\<close> carries the \<^verbatim>\<open>event_number\<close> of event \<open>i\<close> and its scaled
  distance. Every row has the same twelve keys in the same order (\<open>row_keys\<close>). The
  event's \<^verbatim>\<open>reflection_loss\<close> is carried as a float under the key \<^verbatim>\<open>reflectance_db\<close>; the
  row has no key \<^verbatim>\<open>reflection_loss\<close>.
\<close>

theorem one_row_per_event:
  assumes "extract_events_table pf blocks distance_factor = Inr table"
  shows "\<exists>events es.
           events_of (key_events blocks) = Inr events \<and> py_iter events = Inr es \<and>
           length table = length es \<and>
           (\<forall>i<length es. \<exists>d dist refl.
              es ! i = PDict d \<and>
              map fst (table ! i) = row_keys \<and>
              dict_index (table ! i) ''event_number'' = Inr (dict_get d ''event_number'') \<and>
              py_float pf (py_or (dict_get d ''distance_of_travel'') (PFloat 0)) = Inr dist \<and>
              dict_index (table ! i) ''distance_m'' = Inr (PFloat (dist * distance_factor)) \<and>
              py_float pf (py_or (dict_get d ''reflection_loss'') (PFloat 0)) = Inr refl \<and>
              dict_index (table ! i) ''reflectance_db'' = Inr (PFloat refl) \<and>
              dict_index (table ! i) ''reflection_loss'' = Inl KeyError)"
proof -
  from extract_events_table_rows [OF assms] obtain events es where
    e: "events_of (key_events blocks) = Inr events" "py_iter events = Inr es" and
    r: "list_all2 (row_of_event pf distance_factor) es table"
    by blast
  from r have len: "length table = length es"
    by (simp add: list_all2_lengthD)
  have "\<forall>i<length es. \<exists>d dist refl.
              es ! i = PDict d \<and>
              map fst (table ! i) = row_keys \<and>
              dict_index (table ! i) ''event_number'' = Inr (dict_get d ''event_number'') \<and>
              py_float pf (py_or (dict_get d ''distance_of_travel'') (PFloat 0)) = Inr dist \<and>
              dict_index (table ! i) ''distance_m'' = Inr (PFloat (dist * distance_factor)) \<and>
              py_float pf (py_or (dict_get d ''reflection_loss'') (PFloat 0)) = Inr refl \<and>
              dict_index (table ! i) ''reflectance_db'' = Inr (PFloat refl) \<and>
              dict_index (table ! i) ''reflection_loss'' = Inl KeyError"
  proof (intro allI impI)
    fix i
    assume "i < length es"
    with r have "row_of_event pf distance_factor (es ! i) (table ! i)"
      by (rule list_all2_nthD)
    then show "\<exists>d dist refl.
              es ! i = PDict d \<and>
              map fst (table ! i) = row_keys \<and>
              dict_index (table ! i) ''event_number'' = Inr (dict_get d ''event_number'') \<and>
              py_float pf (py_or (dict_get d ''distance_of_travel'') (PFloat 0)) = Inr dist \<and>
              dict_index (table ! i) ''distance_m'' = Inr (PFloat (dist * distance_factor)) \<and>
              py_float pf (py_or (dict_get d ''reflection_loss'') (PFloat 0)) = Inr refl \<and>
              dict_index (table ! i) ''reflectance_db'' = Inr (PFloat refl) \<and>
              dict_index (table ! i) ''reflection_loss'' = Inl KeyError"
      unfolding row_of_event_def by blast
  qed
  with e len show ?thesis by blast
qed

theorem one_row_per_event_witness:
  "extract_events_table Map.empty scenario_blocks (1 / 2) = Inr scenario_table \<and>
   (\<exists>events es.
      events_of (key_events scenario_blocks) = Inr events \<and> py_iter events = Inr es \<and>
      length scenario_table = length es \<and>
      (\<forall>i<length es. \<exists>d dist refl.
         es ! i = PDict d \<and>
         map fst (scenario_table ! i) = row_keys \<and>
         dict_index (scenario_table ! i) ''event_number'' = Inr (dict_get d ''event_number'') \<and>
         py_float Map.empty (py_or (dict_get d ''distance_of_travel'') (PFloat 0)) = Inr dist \<and>
         dict_index (scenario_table ! i) ''distance_m'' = Inr (PFloat (dist * (1 / 2))) \<and>
         py_float Map.empty (py_or (dict_get d ''reflection_loss'') (PFloat 0)) = Inr refl \<and>
         dict_index (scenario_table ! i) ''reflectance_db'' = Inr (PFloat refl) \<and>
         dict_index (scenario_table ! i) ''reflection_loss'' = Inl KeyError))"
  by (rule conjI [OF scenario_table_eq one_row_per_event [OF scenario_table_eq]])

text \<open>
  C9 as stated fails on the first event of the worked input: its \<^verbatim>\<open>reflection_loss\<close> is
  -40, and its row has the twelve keys below, none of them \<^verbatim>\<open>reflection_loss\<close>; the
  value sits under \<^verbatim>\<open>reflectance_db\<close>.
\<close>

theorem row_lacks_reflection_loss_counterexample:
  "extract_events_table Map.empty scenario_blocks (1 / 2) = Inr scenario_table \<and>
   py_get (scenario_events ! 0) ''reflection_loss'' = Inr (PFloat (- 40)) \<and>
   map fst (scenario_table ! 0) =
     [''event_number'', ''distance_m'', ''rel_distance_m'', ''event_loss_db'',
      ''slope_db_per_km'', ''section_loss_db'', ''cumulative_loss_db'', ''reflectance_db'',
      ''event_type'', ''event'', ''note'', ''comment''] \<and>
   dict_index (scenario_table ! 0) ''reflection_loss'' = Inl KeyError \<and>
   dict_index (scenario_table ! 0) ''reflectance_db'' = Inr (PFloat (- 40))"
proof -
  have "py_get (scenario_events ! 0) ''reflection_loss'' = Inr (PFloat (- 40))"
    by (simp add: scenario_events_def dict_get_def)
  moreover have "map fst (scenario_table ! 0) =
     [''event_number'', ''distance_m'', ''rel_distance_m'', ''event_loss_db'',
      ''slope_db_per_km'', ''section_loss_db'', ''cumulative_loss_db'', ''reflectance_db'',
      ''event_type'', ''event'', ''note'', ''comment'']"
    by (simp add: scenario_table_def)
  moreover have "dict_index (scenario_table ! 0) ''reflection_loss'' = Inl KeyError"
    by (simp add: scenario_table_def dict_index_def)
  moreover have "dict_index (scenario_table ! 0) ''reflectance_db'' = Inr (PFloat (- 40))"
    by (simp add: scenario_table_def dict_index_def)
  ultimately show ?thesis
    using scenario_table_eq by simp
qed

section \<open>Inputs of the documented shape never raise\<close>

lemma dict_get_Nil [simp]: "dict_get [] k = PNone"
  by (simp add: dict_get_def)

lemma key_events_shape_dict:
  assumes "blocks_shape blocks"
  shows "\<exists>ke. key_events blocks = PDict ke \<and>
           nullable_number (dict_get ke ''fiber_length'') \<and>
           nullable_number (dict_get ke ''total_loss'') \<and>
           events_shape (dict_get ke ''events'')"
proof -
  from assms have "key_events_shape (dict_get blocks ''KeyEvents'')"
    by (simp add: blocks_shape_def)
  then show ?thesis
  proof (cases "dict_get blocks ''KeyEvents''")
    case PNone
    then show ?thesis
      by (simp add: key_events_def py_or_def nullable_number_def)
  next
    case (PDict ke)
    with \<open>key_events_shape (dict_get blocks ''KeyEvents'')\<close> show ?thesis
      by (cases "ke = []") (simp_all add: key_events_def py_or_def nullable_number_def)
  qed simp_all
qed

lemma events_shape_list:
  assumes "events_shape v"
  shows "\<exists>es. py_or v (PList []) = PList es \<and> list_all event_shape es"
  using assms by (cases v) (auto simp: py_or_def)

lemma nullable_float:
  assumes "nullable_number v"
  shows "\<exists>x. py_float pf (py_or v (PFloat 0)) = Inr x"
  using assms by (cases v) (auto simp: py_or_def nullable_number_def)

lemma optional_mapping_dict:
  assumes "optional_mapping v"
  shows "\<exists>d. py_or v (PDict []) = PDict d"
  using assms by (cases v) (auto simp: py_or_def)

lemma loop_body_total:
  assumes "event_shape e"
  shows "\<exists>t. loop_body pf k p c e = Inr t"
proof -
  from assms obtain d where e: "e = PDict d"
    by (cases e) auto
  from assms e obtain x1 x2 x3 x4 etd where
    "py_float pf (py_or (dict_get d ''distance_of_travel'') (PFloat 0)) = Inr x1"
    "py_float pf (py_or (dict_get d ''slope'') (PFloat 0)) = Inr x2"
    "py_float pf (py_or (dict_get d ''splice_loss'') (PFloat 0)) = Inr x3"
    "py_float pf (py_or (dict_get d ''reflection_loss'') (PFloat 0)) = Inr x4"
    "py_or (dict_get d ''event_type_details'') (PDict []) = PDict etd"
    using nullable_float [of _ pf] optional_mapping_dict
    by (metis event_shape.simps(1))
  then show ?thesis
    unfolding e loop_body_PDict by simp
qed

lemma events_loop_total:
  "list_all event_shape es \<Longrightarrow> \<exists>out. events_loop pf k [] p c es = Inr out"
proof (induction es arbitrary: p c)
  case Nil
  show ?case by simp
next
  case (Cons e es)
  from Cons.prems have "event_shape e" and es: "list_all event_shape es"
    by simp_all
  from loop_body_total [OF this(1), of pf k p c] obtain row d c' where
    b: "loop_body pf k p c e = Inr (row, d, c')"
    by (metis prod_cases3)
  from Cons.IH [OF es, of d c'] obtain rest where
    r: "events_loop pf k [] d c' es = Inr rest"
    by blast
  from b r have "events_loop pf k [] p c (e # es) = Inr (row # rest)"
    unfolding events_loop_Cons by blast
  then show ?case by blast
qed

lemma event_distances_total:
  "list_all event_shape es \<Longrightarrow> \<exists>ds. event_distances pf es = Inr ds"
proof (induction es)
  case Nil
  show ?case by simp
next
  case (Cons e es)
  from Cons.prems obtain d where e: "e = PDict d"
    by (cases e) auto
  from Cons.prems e obtain x where
    "py_float pf (py_or (dict_get d ''distance_of_travel'') (PFloat 0)) = Inr x"
    using nullable_float [of _ pf] by auto
  moreover from Cons obtain ds where "event_distances pf es = Inr ds"
    by auto
  ultimately show ?case
    by (simp add: e)
qed

lemma row_ok_shape: "row_ok p c r d c' \<Longrightarrow> row_shape r"
  by (auto simp: row_ok_def row_shape_def number_at_def)

lemma chain_shape: "chain p c rs \<Longrightarrow> list_all row_shape rs"
  by (induction rs arbitrary: p c) (auto dest: row_ok_shape)

lemma number_at_float:
  assumes "number_at r k"
  shows "\<exists>x. bindE (dict_index r k) (py_float pf) = Inr x"
proof -
  from assms obtain v where v: "dict_index r k = Inr v" "as_number v \<noteq> None"
    by (auto simp: number_at_def split: sum.splits)
  then show ?thesis
    by (cases v) auto
qed

lemma row_distances_total:
  "list_all row_shape rs \<Longrightarrow> \<exists>ds. row_distances pf rs = Inr ds \<and> length ds = length rs"
proof (induction rs)
  case Nil
  show ?case by simp
next
  case (Cons r rs)
  from Cons.prems have "number_at r ''distance_m''"
    by (simp add: row_shape_def)
  from number_at_float [OF this, of pf] obtain v x where
    "dict_index r ''distance_m'' = Inr v" "py_float pf v = Inr x"
    by (auto simp: bindE_eq_Inr)
  moreover from Cons obtain ds where "row_distances pf rs = Inr ds" "length ds = length rs"
    by auto
  ultimately show ?case by simp
qed

lemma calibrator_total:
  assumes "blocks_shape blocks"
  shows "\<exists>factor. auto_distance_factor pf blocks = Inr factor \<and>
           (py_get (key_events blocks) ''fiber_length'' = Inr PNone \<longrightarrow> factor = 1 / 2)"
proof -
  from key_events_shape_dict [OF assms] obtain ke where
    ke: "key_events blocks = PDict ke" and
    fl: "nullable_number (dict_get ke ''fiber_length'')" and
    ev: "events_shape (dict_get ke ''events'')"
    by blast
  from events_shape_list [OF ev] obtain es where
    es: "py_or (dict_get ke ''events'') (PList []) = PList es" "list_all event_shape es"
    by blast
  from event_distances_total [OF es(2), of pf] obtain ds where
    ds: "event_distances pf es = Inr ds"
    by blast
  show ?thesis
  proof (cases "py_truthy (dict_get ke ''fiber_length'')")
    case True
    from py_float_truthy [OF fl True, of pf] obtain x where
      x: "py_float pf (dict_get ke ''fiber_length'') = Inr x" "x \<noteq> 0"
      by blast
    have "auto_distance_factor pf blocks =
        Inr (if py_max_default ds 0 \<noteq> 0
             then (if 17 / 10 < py_max_default ds 0 / x \<and> py_max_default ds 0 / x < 23 / 10
                   then 1 / 2
                   else if 85 / 100 < py_max_default ds 0 / x \<and> py_max_default ds 0 / x < 115 / 100
                   then 1 else 1 / 2)
             else 1 / 2)"
      using True ke es ds x
      by (simp add: auto_distance_factor_def Let_def events_of_def py_truediv_def)
    then have "\<exists>factor. auto_distance_factor pf blocks = Inr factor"
      by blast
    moreover from True have "py_get (key_events blocks) ''fiber_length'' \<noteq> Inr PNone"
      unfolding ke by auto
    ultimately show ?thesis by blast
  next
    case False
    with ke es ds have "auto_distance_factor pf blocks = Inr (1 / 2)"
      by (simp add: auto_distance_factor_def Let_def events_of_def)
    then show ?thesis by blast
  qed
qed

lemma row_of_event_defaults:
  assumes "row_of_event pf k e row"
  shows "(py_get e ''distance_of_travel'' = Inr PNone \<longrightarrow>
            dict_index row ''distance_m'' = Inr (PFloat 0)) \<and>
         (py_get e ''slope'' = Inr PNone \<longrightarrow>
            dict_index row ''slope_db_per_km'' = Inr (PFloat 0)) \<and>
         (py_get e ''splice_loss'' = Inr PNone \<longrightarrow>
            dict_index row ''event_loss_db'' = Inr (PFloat 0)) \<and>
         (py_get e ''reflection_loss'' = Inr PNone \<longrightarrow>
            dict_index row ''reflectance_db'' = Inr (PFloat 0))"
  using assms
  unfolding row_of_event_def
  by (auto simp: py_or_def)

lemma builder_total:
  assumes "blocks_shape blocks"
  shows "\<exists>events es table.
           events_of (key_events blocks) = Inr events \<and> py_iter events = Inr es \<and>
           extract_events_table pf blocks k = Inr table \<and>
           list_all2 (row_of_event pf k) es table \<and> list_all row_shape table"
proof -
  from key_events_shape_dict [OF assms] obtain ke where
    ke: "key_events blocks = PDict ke" and
    ev: "events_shape (dict_get ke ''events'')"
    by blast
  from events_shape_list [OF ev] obtain es where
    es: "py_or (dict_get ke ''events'') (PList []) = PList es" "list_all event_shape es"
    by blast
  from events_loop_total [OF es(2), of pf k 0 0] obtain table where
    loop: "events_loop pf k [] 0 0 es = Inr table"
    by blast
  have e1: "events_of (key_events blocks) = Inr (PList es)"
    using ke es(1) by (simp add: events_of_def)
  have e2: "py_iter (PList es) = Inr es"
    by simp
  have e3: "extract_events_table pf blocks k = Inr table"
    using e1 loop by (simp add: extract_events_table_def)
  from events_loop_rows [OF loop] events_loop_chain [OF loop] e1 e2 e3
  show ?thesis
    by (blast dest: chain_shape)
qed

lemma py_max_total: "ds \<noteq> [] \<Longrightarrow> \<exists>m. py_max ds = Inr m"
  by (cases ds) (simp_all add: py_max_def)

lemma summary_total:
  assumes "blocks_shape blocks" and "list_all row_shape rows"
  shows "\<exists>summary. summarize pf blocks rows = Inr summary \<and>
           (py_get (key_events blocks) ''total_loss'' = Inr PNone \<and> rows = [] \<longrightarrow>
              dict_index summary ''total_loss_db'' = Inr (PFloat 0)) \<and>
           (py_get (key_events blocks) ''optical_return_loss'' = Inr PNone \<longrightarrow>
              dict_index summary ''optical_return_loss_db'' = Inr PNone)"
proof -
  from key_events_shape_dict [OF assms(1)] obtain ke where
    ke: "key_events blocks = PDict ke" and
    tl: "nullable_number (dict_get ke ''total_loss'')"
    by blast
  have "\<exists>m. (if rows \<noteq> [] then bindE (row_distances pf rows) py_max else Inr 0) = Inr m"
  proof (cases "rows = []")
    case True
    then show ?thesis by simp
  next
    case False
    from row_distances_total [OF assms(2), of pf] obtain ds where
      "row_distances pf rows = Inr ds" "length ds = length rows"
      by blast
    moreover from this False have "ds \<noteq> []"
      by auto
    ultimately show ?thesis
      using False py_max_total [of ds] by auto
  qed
  then obtain m where
    m: "(if rows \<noteq> [] then bindE (row_distances pf rows) py_max else Inr 0) = Inr m"
    by blast
  have "\<exists>t. (if dict_get ke ''total_loss'' = PNone
              then (if rows \<noteq> []
                    then bindE (py_last rows) (\<lambda>r.
                         bindE (dict_index r ''cumulative_loss_db'') (py_float pf))
                    else Inr 0)
              else py_float pf (dict_get ke ''total_loss'')) = Inr t"
  proof (cases "dict_get ke ''total_loss'' = PNone")
    case True
    show ?thesis
    proof (cases "rows = []")
      case True
      with \<open>dict_get ke ''total_loss'' = PNone\<close> show ?thesis by simp
    next
      case False
      with assms(2) have "row_shape (last rows)"
        by (simp add: list_all_iff)
      then have "number_at (last rows) ''cumulative_loss_db''"
        by (simp add: row_shape_def)
      from number_at_float [OF this, of pf] False True show ?thesis
        by (simp add: py_last_def)
    qed
  next
    case False
    with tl show ?thesis
      by (cases "dict_get ke ''total_loss''") (auto simp: nullable_number_def)
  qed
  then obtain t where
    t: "(if dict_get ke ''total_loss'' = PNone
         then (if rows \<noteq> []
               then bindE (py_last rows) (\<lambda>r.
                    bindE (dict_index r ''cumulative_loss_db'') (py_float pf))
               else Inr 0)
         else py_float pf (dict_get ke ''total_loss'')) = Inr t"
    by blast
  have t0: "dict_get ke ''total_loss'' = PNone \<and> rows = [] \<longrightarrow> t = 0"
    using t by auto
  have s: "summarize pf blocks rows =
      Inr [(''fiber_length_m'', PFloat m),
           (''fiber_length_km'', PFloat (m / 1000)),
           (''total_loss_db'', PFloat t),
           (''avg_att_db_per_km'', if 0 < m / 1000 then PFloat (t / (m / 1000)) else PNone),
           (''optical_return_loss_db'', dict_get ke ''optical_return_loss'')]"
    unfolding summarize_def Let_def ke m py_get.simps bindE_Inr t
    by (simp add: py_truediv_def)
  show ?thesis
    unfolding s ke using t0
    by (simp add: dict_index_def)
qed



end
